theory Spec2Isabelle
  imports Main "HOL-Library.Sublist"
begin

section \<open>The alchemy resolver of \<^verbatim>\<open>alchemy.py\<close>\<close>

text \<open>
  The program keeps a list of base ingredients and a list of recipes, and searches
  recursively for a sequence of recipe applications that produces a target element.
  The embedding follows \<^verbatim>\<open>src/alchemy.py\<close> function by function and keeps its names.
  The two module-level lists are passed explicitly (\<open>base\<close> and \<open>cat\<close>), so that the
  search can be stated for any catalog; the lists written in the source are the constants
  \<open>base_ingredients\<close> and \<open>recipes\<close>.
\<close>

subsection \<open>Data\<close>

text \<open>\<^verbatim>\<open>class Direction(IntEnum)\<close>: \<^verbatim>\<open>COMBINE = 0\<close>, \<^verbatim>\<open>SPLIT = 1\<close>.\<close>

datatype Direction = COMBINE | SPLIT

text \<open>
  \<^verbatim>\<open>class Recipe\<close> has the three attributes \<^verbatim>\<open>reagents\<close>, \<^verbatim>\<open>result\<close> and
  \<^verbatim>\<open>no_split\<close>. The class defines neither \<^verbatim>\<open>__eq__\<close> nor \<^verbatim>\<open>__hash__\<close>, so Python compares
  two recipes by object identity. The field \<open>ident\<close> is that identity (what \<^verbatim>\<open>id(recipe)\<close>
  returns): two records with equal \<open>ident\<close> stand for one object, two records with equal
  attributes and different \<open>ident\<close> for two objects that happen to look alike.
\<close>

record Recipe =
  ident :: nat
  reagents :: "string list"
  result :: string
  no_split :: bool

text \<open>\<^verbatim>\<open>Recipe.__init__(self, reagants, result, no_split=False)\<close>, for the object \<open>i\<close>.\<close>

definition Recipe_init :: "nat \<Rightarrow> string list \<Rightarrow> string \<Rightarrow> bool \<Rightarrow> Recipe" where
  "Recipe_init i reagants res ns =
     \<lparr>ident = i, reagents = reagants, result = res, no_split = ns\<rparr>"

text \<open>\<^verbatim>\<open>a is b\<close>, which is also \<^verbatim>\<open>a == b\<close> for recipes.\<close>

definition same_object :: "Recipe \<Rightarrow> Recipe \<Rightarrow> bool" where
  "same_object a b = (ident a = ident b)"

definition base_ingredients :: "string list" where
  "base_ingredients =
     [''DF'', ''CT'', ''BL'', ''AP'',
      ''OB'', ''PM'', ''HB'', ''GL'',
      ''BH'', ''VM'', ''TF'', ''ST'',
      ''SP'', ''RL'', ''MM'', ''MD'',
      ''LS'', ''IF'', ''CE'', ''IW'',
      ''FP'', ''CC'', ''EE'', ''FR'',
      ''DR'', ''ZW'', ''SB'', ''MR'',
      ''DW'', ''KM'']"

subsection \<open>Python values that \<^verbatim>\<open>get_all_elements\<close> adds\<close>

text \<open>
  \<^verbatim>\<open>+\<close> is defined between two lists and between two strings; between a list and a
  string it raises \<^verbatim>\<open>TypeError\<close>.
\<close>

datatype py_value = PyStr string | PyList "string list"

datatype py_error = TypeError

fun py_add :: "py_value \<Rightarrow> py_value \<Rightarrow> py_error + py_value" where
  "py_add (PyList xs) (PyList ys) = Inr (PyList (xs @ ys))"
| "py_add (PyStr s) (PyStr t) = Inr (PyStr (s @ t))"
| "py_add (PyList xs) (PyStr t) = Inl TypeError"
| "py_add (PyStr s) (PyList ys) = Inl TypeError"

subsection \<open>The methods of \<^verbatim>\<open>Recipe\<close>\<close>

text \<open>\<^verbatim>\<open>sep.join(xs)\<close>\<close>

fun str_join :: "string \<Rightarrow> string list \<Rightarrow> string" where
  "str_join sep [] = []"
| "str_join sep [x] = x"
| "str_join sep (x # y # ys) = x @ sep @ str_join sep (y # ys)"

definition get_recipe_string :: "Recipe \<Rightarrow> Direction \<Rightarrow> string" where
  "get_recipe_string self direction =
     (if direction = COMBINE
      then str_join '' + '' (reagents self) @ '' = '' @ result self
      else result self @ '' -> '' @ str_join '' + '' (reagents self))"

definition get_all_elements :: "Recipe \<Rightarrow> py_error + py_value" where
  "get_all_elements self = py_add (PyList (reagents self)) (PyStr (result self))"

definition is_trivial :: "string list \<Rightarrow> Recipe \<Rightarrow> Direction \<Rightarrow> bool" where
  "is_trivial base self direction =
     (if direction = COMBINE
      then set (reagents self) \<subseteq> set base
      else result self \<in> set base)"

definition get_inputs :: "Recipe \<Rightarrow> Direction \<Rightarrow> string list" where
  "get_inputs self direction = (if direction = SPLIT then [result self] else reagents self)"

definition get_outputs :: "Recipe \<Rightarrow> Direction \<Rightarrow> string list" where
  "get_outputs self direction = (if direction = SPLIT then reagents self else [result self])"

definition get_required_recipe_direction :: "Recipe \<Rightarrow> string \<Rightarrow> Direction" where
  "get_required_recipe_direction self target =
     (if target \<in> set (reagents self) then SPLIT else COMBINE)"

definition can_make :: "Recipe \<Rightarrow> string \<Rightarrow> bool" where
  "can_make self target =
     (if target = result self \<and> target \<notin> set (reagents self) then True
      else if target \<noteq> result self \<and> target \<in> set (reagents self) \<and> \<not> no_split self
        then True
      else False)"

subsection \<open>The catalog\<close>

definition recipes :: "Recipe list" where
  "recipes =
     [Recipe_init 0 [''SI'', ''WV''] ''AC'' False,
      Recipe_init 1 [''AC'', ''SB''] ''DB'' False,
      Recipe_init 2 [''ZW'', ''AC''] ''BW'' False,
      Recipe_init 3 [''WV''] ''PW'' False,
      Recipe_init 4 [''MR'', ''MR''] ''RS'' False,
      Recipe_init 5 [''DW'', ''WV''] ''US'' False,
      Recipe_init 6 [''KM'', ''US''] ''WE'' False,
      Recipe_init 7 [''PW'', ''RS''] ''CW'' False,
      Recipe_init 8 [''LT'', ''PF''] ''PF'' False,
      Recipe_init 9 [''PF'', ''FT''] ''EA'' False,
      Recipe_init 10 [''LT'', ''EA''] ''FE'' False,
      Recipe_init 11 [''FP'', ''IW''] ''SI'' False,
      Recipe_init 12 [''CC''] ''HC'' False,
      Recipe_init 13 [''HC'', ''SI''] ''AH'' False,
      Recipe_init 14 [''EA'', ''FS''] ''HC'' False,
      Recipe_init 15 [''HC'', ''FS''] ''PS'' False,
      Recipe_init 16 [''FR'', ''EE''] ''GC'' False,
      Recipe_init 17 [''DR''] ''CS'' False,
      Recipe_init 18 [''GC'', ''CS''] ''ES'' False,
      Recipe_init 19 [''DW''] ''WV'' False,
      Recipe_init 20 [''FE'', ''AH''] ''RF'' True,
      Recipe_init 21 [''PS'', ''ES''] ''RE'' True,
      Recipe_init 22 [''BW'', ''DB''] ''RA'' True,
      Recipe_init 23 [''CW'', ''WE''] ''RW'' True]"

text \<open>
  \<^verbatim>\<open>get_valid_recipes\<close>: the loop appends, in catalog order, every recipe that can make
  the target.
\<close>

fun get_valid_recipes :: "Recipe list \<Rightarrow> string \<Rightarrow> Recipe list" where
  "get_valid_recipes [] target = []"
| "get_valid_recipes (recipe # rest) target =
     (if can_make recipe target then recipe # get_valid_recipes rest target
      else get_valid_recipes rest target)"

subsection \<open>The resolver\<close>

text \<open>
  \<^verbatim>\<open>previous_recipe in recipes_to_target\<close> and \<^verbatim>\<open>recipes_to_target.remove(previous_recipe)\<close>
  compare with \<^verbatim>\<open>==\<close>, that is by identity; \<^verbatim>\<open>remove\<close> deletes the first match only.
  It raises \<^verbatim>\<open>ValueError\<close> when there is none, which the test before it excludes, so
  \<open>list_remove\<close> is called on lists that hold the object.
\<close>

fun list_contains :: "Recipe list \<Rightarrow> Recipe \<Rightarrow> bool" where
  "list_contains [] p = False"
| "list_contains (r # rs) p = (same_object r p \<or> list_contains rs p)"

fun list_remove :: "Recipe list \<Rightarrow> Recipe \<Rightarrow> Recipe list" where
  "list_remove [] p = []"
| "list_remove (r # rs) p = (if same_object r p then rs else r # list_remove rs p)"

text \<open>
  Lines 163 to 165. \<^verbatim>\<open>previous_recipe\<close> defaults to \<^verbatim>\<open>None\<close>, which is in no list of
  recipes.
\<close>

definition exclude_previous :: "Recipe option \<Rightarrow> Recipe list \<Rightarrow> Recipe list" where
  "exclude_previous previous_recipe recipes_to_target =
     (case previous_recipe of
        None \<Rightarrow> recipes_to_target
      | Some p \<Rightarrow>
          if list_contains recipes_to_target p then list_remove recipes_to_target p
          else recipes_to_target)"

text \<open>
  The function returns a pair \<^verbatim>\<open>(solved, recipe_path)\<close>. It is recursive with no bound
  on the depth, so the model counts the depth of the recursion down from a fuel: \<open>None\<close>
  says that the fuel did not suffice, and a call that returns for no fuel does not return
  in Python either (the interpreter ends it with \<^verbatim>\<open>RecursionError\<close>).

  The two loops are written over the recursive call \<open>rec\<close>, the resolver one level down.
\<close>

type_synonym outcome = "bool \<times> string list"

type_synonym resolver = "string \<Rightarrow> Recipe option \<Rightarrow> outcome option"

text \<open>
  Lines 177 to 185, the loop over the inputs of one recipe. It returns
  \<^verbatim>\<open>(solved_all_reagents, reagent_recipe_list)\<close> as they stand when the loop ends, by
  exhaustion or by \<^verbatim>\<open>break\<close>.
\<close>

fun reagent_loop ::
  "resolver \<Rightarrow> string list \<Rightarrow> Recipe \<Rightarrow> string list \<Rightarrow> string list \<Rightarrow> outcome option" where
  "reagent_loop rec base recipe [] reagent_recipe_list = Some (True, reagent_recipe_list)"
| "reagent_loop rec base recipe (reagent # rest) reagent_recipe_list =
     (if reagent \<notin> set base then
        (case rec reagent (Some recipe) of
           None \<Rightarrow> None
         | Some (solved, recipe_path) \<Rightarrow>
             if solved
             then reagent_loop rec base recipe rest (reagent_recipe_list @ recipe_path)
             else Some (False, reagent_recipe_list))
      else reagent_loop rec base recipe rest reagent_recipe_list)"

text \<open>
  Lines 168 to 188, the body of the loop over the candidates. \<open>Some (True, path)\<close> is
  the \<^verbatim>\<open>return True, path\<close> of line 171 or 188; \<open>Some (False, acc)\<close> says that the body
  fell through to the next candidate, with the accumulator \<open>acc\<close> it had built.
\<close>

definition try_recipe :: "resolver \<Rightarrow> string list \<Rightarrow> string \<Rightarrow> Recipe \<Rightarrow> outcome option" where
  "try_recipe rec base target recipe =
     (let direction = get_required_recipe_direction recipe target in
      if is_trivial base recipe direction
      then Some (True, [get_recipe_string recipe direction])
      else
        (case reagent_loop rec base recipe (get_inputs recipe direction) [] of
           None \<Rightarrow> None
         | Some (solved_all_reagents, reagent_recipe_list) \<Rightarrow>
             if solved_all_reagents
             then Some (True, reagent_recipe_list @ [get_recipe_string recipe direction])
             else Some (False, reagent_recipe_list)))"

text \<open>Lines 167 to 190, the loop over the candidates and the final \<^verbatim>\<open>return False, []\<close>.\<close>

fun recipe_loop :: "resolver \<Rightarrow> string list \<Rightarrow> string \<Rightarrow> Recipe list \<Rightarrow> outcome option" where
  "recipe_loop rec base target [] = Some (False, [])"
| "recipe_loop rec base target (recipe # rest) =
     (case try_recipe rec base target recipe of
        None \<Rightarrow> None
      | Some (returned, path) \<Rightarrow>
          if returned then Some (True, path) else recipe_loop rec base target rest)"

primrec get_recipe_path ::
  "nat \<Rightarrow> string list \<Rightarrow> Recipe list \<Rightarrow> string \<Rightarrow> Recipe option \<Rightarrow> outcome option" where
  "get_recipe_path 0 base cat target previous_recipe = None"
| "get_recipe_path (Suc fuel) base cat target previous_recipe =
     (let recipes_to_target = get_valid_recipes cat target in
      if length recipes_to_target = 0 then Some (False, [])
      else recipe_loop (get_recipe_path fuel base cat) base target
             (exclude_previous previous_recipe recipes_to_target))"

text \<open>\<^verbatim>\<open>print_recipe_path\<close>: the lines it prints.\<close>

definition print_recipe_path ::
  "nat \<Rightarrow> string list \<Rightarrow> Recipe list \<Rightarrow> string \<Rightarrow> string list option" where
  "print_recipe_path fuel base cat target =
     (case get_recipe_path fuel base cat target None of
        None \<Rightarrow> None
      | Some (solved, recipe_path) \<Rightarrow>
          if solved then Some recipe_path
          else Some [''Failed to solve for '' @ target])"

subsection \<open>Small catalogs for worked examples\<close>

text \<open>The first input of the first recipe resolves, the second (\<open>Y\<close>) does not.\<close>

definition cat_partial :: "Recipe list" where
  "cat_partial =
     [Recipe_init 0 [''X'', ''Y''] ''T'' False,
      Recipe_init 1 [''DW''] ''X'' False]"

text \<open>
  The first recipe makes the base ingredient \<open>DW\<close>; two calls below the call that tries
  it, it is a candidate again, as a split.
\<close>

definition cat_grandparent :: "Recipe list" where
  "cat_grandparent =
     [Recipe_init 0 [''X'', ''Y''] ''DW'' False,
      Recipe_init 1 [''Y''] ''X'' False]"

text \<open>The first input (\<open>Y\<close>) fails at once; the second (\<open>X\<close>) needs one more level.\<close>

definition cat_abandon :: "Recipe list" where
  "cat_abandon =
     [Recipe_init 0 [''Y'', ''X''] ''T'' False,
      Recipe_init 1 [''Z''] ''X'' False]"

section \<open>More fuel changes no result\<close>

text \<open>
  A call that returns with some fuel returns the same pair with any larger fuel, so a
  result of the model is the result of the program. The loops are monotone in the
  recursive call they are given.
\<close>

lemma reagent_loop_mono:
  assumes "\<And>x p r. rec x p = Some r \<Longrightarrow> rec' x p = Some r"
  shows "reagent_loop rec base c xs acc = Some r \<Longrightarrow> reagent_loop rec' base c xs acc = Some r"
proof (induction xs arbitrary: acc)
  case Nil
  then show ?case by simp
next
  case (Cons x xs)
  show ?case
  proof (cases "x \<in> set base")
    case True
    with Cons show ?thesis by simp
  next
    case False
    show ?thesis
    proof (cases "rec x (Some c)")
      case None
      with Cons.prems False show ?thesis by simp
    next
      case (Some o1)
      then have r': "rec' x (Some c) = Some o1" by (rule assms)
      obtain s p where o1: "o1 = (s, p)" by (cases o1)
      show ?thesis
        using Cons.prems Cons.IH [of "acc @ p"] False Some r' o1
        by (cases s) simp_all
    qed
  qed
qed

lemma try_recipe_mono:
  assumes "\<And>x p r. rec x p = Some r \<Longrightarrow> rec' x p = Some r"
    and "try_recipe rec base t c = Some r"
  shows "try_recipe rec' base t c = Some r"
proof (cases "is_trivial base c (get_required_recipe_direction c t)")
  case True
  with assms(2) show ?thesis by (simp add: try_recipe_def)
next
  case False
  let ?d = "get_required_recipe_direction c t"
  from assms(2) False obtain o1 where o1: "reagent_loop rec base c (get_inputs c ?d) [] = Some o1"
    by (cases "reagent_loop rec base c (get_inputs c ?d) []") (simp_all add: try_recipe_def)
  have "reagent_loop rec' base c (get_inputs c ?d) [] = Some o1"
    using reagent_loop_mono [of rec rec', OF assms(1) o1] .
  with o1 assms(2) False show ?thesis by (simp add: try_recipe_def)
qed

lemma recipe_loop_mono:
  assumes "\<And>x p r. rec x p = Some r \<Longrightarrow> rec' x p = Some r"
  shows "recipe_loop rec base t cs = Some r \<Longrightarrow> recipe_loop rec' base t cs = Some r"
proof (induction cs)
  case Nil
  then show ?case by simp
next
  case (Cons c cs)
  from Cons.prems obtain o1 where o1: "try_recipe rec base t c = Some o1"
    by (cases "try_recipe rec base t c") simp_all
  have o1': "try_recipe rec' base t c = Some o1"
    using try_recipe_mono [of rec rec', OF assms o1] .
  show ?case using Cons o1 o1' by (cases o1) (auto split: if_splits)
qed

lemma get_recipe_path_unfold:
  "get_recipe_path (Suc n) base cat t prev =
     (if get_valid_recipes cat t = [] then Some (False, [])
      else recipe_loop (get_recipe_path n base cat) base t
             (exclude_previous prev (get_valid_recipes cat t)))"
  by (simp add: Let_def)

lemma get_recipe_path_Suc:
  "get_recipe_path n base cat t prev = Some r \<Longrightarrow>
   get_recipe_path (Suc n) base cat t prev = Some r"
proof (induction n arbitrary: t prev r)
  case 0
  then show ?case by simp
next
  case (Suc n)
  show ?case
  proof (cases "get_valid_recipes cat t = []")
    case True
    with Suc.prems show ?thesis by simp
  next
    case False
    with Suc.prems have
      "recipe_loop (get_recipe_path n base cat) base t
         (exclude_previous prev (get_valid_recipes cat t)) = Some r"
      by (simp add: Let_def)
    then have
      "recipe_loop (get_recipe_path (Suc n) base cat) base t
         (exclude_previous prev (get_valid_recipes cat t)) = Some r"
      using recipe_loop_mono [of "get_recipe_path n base cat" "get_recipe_path (Suc n) base cat"]
        Suc.IH
      by blast
    with False show ?thesis by (simp add: Let_def)
  qed
qed

lemma get_recipe_path_more_fuel:
  "get_recipe_path n base cat t prev = Some r \<Longrightarrow>
   get_recipe_path (n + k) base cat t prev = Some r"
  by (induction k) (simp_all add: get_recipe_path_Suc del: get_recipe_path.simps)

lemma try_recipe_more_fuel:
  assumes "try_recipe (get_recipe_path n base cat) base t c = Some r"
  shows "try_recipe (get_recipe_path (n + k) base cat) base t c = Some r"
  using try_recipe_mono [of "get_recipe_path n base cat" "get_recipe_path (n + k) base cat"
      base t c r] get_recipe_path_more_fuel assms
  by blast

section \<open>The candidate list\<close>

lemma get_valid_recipes_filter: "get_valid_recipes cat t = filter (\<lambda>r. can_make r t) cat"
  by (induction cat) simp_all

lemma list_remove_absent: "\<not> list_contains rs p \<Longrightarrow> list_remove rs p = rs"
  by (induction rs) auto

lemma exclude_previous_None: "exclude_previous None rs = rs"
  by (simp add: exclude_previous_def)

lemma exclude_previous_Some: "exclude_previous (Some p) rs = list_remove rs p"
  by (simp add: exclude_previous_def list_remove_absent)

lemma exclude_previous_Nil: "exclude_previous prev [] = []"
  by (cases prev) (simp_all add: exclude_previous_def)

lemma list_remove_keeps: "r \<in> set rs \<Longrightarrow> \<not> same_object r p \<Longrightarrow> r \<in> set (list_remove rs p)"
  by (induction rs) auto

lemma list_remove_subseq: "subseq (list_remove rs p) rs"
  by (induction rs) auto

lemma list_remove_length: "length rs \<le> Suc (length (list_remove rs p))"
  by (induction rs) auto

lemma list_remove_distinct:
  "distinct (map ident rs) \<Longrightarrow> list_remove rs p = filter (\<lambda>r. \<not> same_object r p) rs"
proof (induction rs)
  case Nil
  then show ?case by simp
next
  case (Cons r rs)
  show ?case
  proof (cases "same_object r p")
    case True
    from Cons.prems have "\<forall>q\<in>set rs. ident q \<noteq> ident r"
      by (auto simp: image_iff)
    with True have "\<forall>q\<in>set rs. \<not> same_object q p"
      by (simp add: same_object_def)
    then have "filter (\<lambda>r. \<not> same_object r p) rs = rs"
      by (simp add: filter_id_conv)
    with True show ?thesis by simp
  next
    case False
    with Cons show ?thesis by simp
  qed
qed

lemma exclude_previous_subseq: "subseq (exclude_previous prev rs) rs"
  by (cases prev) (simp_all add: exclude_previous_def list_remove_subseq)

lemma candidates_subseq: "subseq (exclude_previous prev (get_valid_recipes cat t)) cat"
proof -
  have "subseq (get_valid_recipes cat t) cat"
    by (simp add: get_valid_recipes_filter)
  with exclude_previous_subseq [of prev "get_valid_recipes cat t"] show ?thesis
    using subseq_order.order_trans by blast
qed

section \<open>The two loops\<close>

text \<open>A \<^verbatim>\<open>return True, path\<close> of the loop body always carries the recipe's own step.\<close>

lemma try_recipe_True_nonempty: "try_recipe rec base t c = Some (True, p) \<Longrightarrow> p \<noteq> []"
  by (auto simp: try_recipe_def Let_def split: if_splits option.splits prod.splits)

lemma recipe_loop_shape:
  "recipe_loop rec base t cs = Some (s, p) \<Longrightarrow> (s \<and> p \<noteq> []) \<or> (\<not> s \<and> p = [])"
proof (induction cs)
  case Nil
  then show ?case by simp
next
  case (Cons c cs)
  then show ?case
    by (auto split: option.splits prod.splits if_splits dest: try_recipe_True_nonempty)
qed

lemma get_recipe_path_shape:
  "get_recipe_path n base cat t prev = Some (s, p) \<Longrightarrow> (s \<and> p \<noteq> []) \<or> (\<not> s \<and> p = [])"
proof (cases n)
  case 0
  assume "get_recipe_path n base cat t prev = Some (s, p)"
  with 0 show ?thesis by simp
next
  case (Suc m)
  assume a: "get_recipe_path n base cat t prev = Some (s, p)"
  show ?thesis
  proof (cases "get_valid_recipes cat t = []")
    case True
    with a Suc show ?thesis by (auto simp: get_recipe_path_unfold)
  next
    case False
    with a Suc show ?thesis by (auto simp: get_recipe_path_unfold dest: recipe_loop_shape)
  qed
qed

text \<open>Candidates that fall through are skipped; the first that returns decides.\<close>

lemma recipe_loop_skip_failed:
  "\<forall>r\<in>set pre. \<exists>acc. try_recipe rec base t r = Some (False, acc) \<Longrightarrow>
   recipe_loop rec base t (pre @ cs) = recipe_loop rec base t cs"
  by (induction pre) auto

lemma recipe_loop_first_success:
  assumes "\<forall>r\<in>set pre. \<exists>acc. try_recipe rec base t r = Some (False, acc)"
    and "try_recipe rec base t c = Some (True, p)"
  shows "recipe_loop rec base t (pre @ c # post) = Some (True, p)"
  using assms by (simp add: recipe_loop_skip_failed)


lemma get_recipe_path_first_success:
  assumes "exclude_previous prev (get_valid_recipes cat t) = pre @ c # post"
    and "\<forall>r\<in>set pre. \<exists>acc. try_recipe (get_recipe_path n base cat) base t r = Some (False, acc)"
    and "try_recipe (get_recipe_path n base cat) base t c = Some (True, p)"
  shows "get_recipe_path (Suc n) base cat t prev = Some (True, p)"
proof -
  have "get_valid_recipes cat t \<noteq> []"
    using assms(1) exclude_previous_Nil [of prev] by auto
  then have "get_recipe_path (Suc n) base cat t prev =
      recipe_loop (get_recipe_path n base cat) base t (pre @ c # post)"
    using assms(1) by (simp add: get_recipe_path_unfold)
  also have "\<dots> = Some (True, p)"
    using assms(2,3) by (rule recipe_loop_first_success)
  finally show ?thesis .
qed

lemma get_recipe_path_skip_failed:
  assumes "exclude_previous prev (get_valid_recipes cat t) = pre @ post"
    and "pre \<noteq> []"
    and "\<forall>r\<in>set pre. \<exists>acc. try_recipe (get_recipe_path n base cat) base t r = Some (False, acc)"
  shows "get_recipe_path (Suc n) base cat t prev =
           recipe_loop (get_recipe_path n base cat) base t post"
proof -
  have "get_valid_recipes cat t \<noteq> []"
    using assms(1,2) exclude_previous_Nil [of prev] by auto
  then have "get_recipe_path (Suc n) base cat t prev =
      recipe_loop (get_recipe_path n base cat) base t (pre @ post)"
    using assms(1) by (simp add: get_recipe_path_unfold)
  also have "\<dots> = recipe_loop (get_recipe_path n base cat) base t post"
    using assms(3) by (rule recipe_loop_skip_failed)
  finally show ?thesis .
qed

text \<open>
  The loop over the inputs, when every input outside the base set resolves (to the path
  \<open>sub y\<close> for the input \<open>y\<close>), and when one of them is the first not to.
\<close>

lemma reagent_loop_all_solved:
  "\<forall>y\<in>set (filter (\<lambda>x. x \<notin> set base) xs). rec y (Some c) = Some (True, sub y) \<Longrightarrow>
   reagent_loop rec base c xs acc =
     Some (True, acc @ concat (map sub (filter (\<lambda>x. x \<notin> set base) xs)))"
  by (induction xs arbitrary: acc) auto

lemma reagent_loop_first_failure:
  "filter (\<lambda>x. x \<notin> set base) xs = ps @ y # qs \<Longrightarrow>
   \<forall>z\<in>set ps. rec z (Some c) = Some (True, sub z) \<Longrightarrow>
   rec y (Some c) = Some (False, q) \<Longrightarrow>
   reagent_loop rec base c xs acc = Some (False, acc @ concat (map sub ps))"
proof (induction xs arbitrary: acc ps)
  case Nil
  then show ?case by simp
next
  case (Cons x xs)
  show ?case
  proof (cases "x \<in> set base")
    case True
    with Cons show ?thesis by simp
  next
    case False
    show ?thesis
    proof (cases ps)
      case Nil
      with Cons.prems False show ?thesis by simp
    next
      case (Cons z zs)
      with Cons.prems False have x: "x = z"
        and f: "filter (\<lambda>x. x \<notin> set base) xs = zs @ y # qs"
        by simp_all
      have "reagent_loop rec base c xs (acc @ sub z) =
          Some (False, (acc @ sub z) @ concat (map sub zs))"
        using Cons.IH [OF f, of "acc @ sub z"] Cons.prems Cons by simp
      with x False Cons.prems Cons show ?thesis by simp
    qed
  qed
qed

lemma try_recipe_all_solved:
  assumes "\<not> is_trivial base c (get_required_recipe_direction c t)"
    and "\<forall>y\<in>set (filter (\<lambda>x. x \<notin> set base)
             (get_inputs c (get_required_recipe_direction c t))).
           rec y (Some c) = Some (True, sub y)"
  shows "try_recipe rec base t c =
           Some (True, concat (map sub (filter (\<lambda>x. x \<notin> set base)
                    (get_inputs c (get_required_recipe_direction c t))))
                 @ [get_recipe_string c (get_required_recipe_direction c t)])"
  using assms(1)
    reagent_loop_all_solved [of base "get_inputs c (get_required_recipe_direction c t)" rec c
      sub "[]", OF assms(2)]
  by (simp add: try_recipe_def Let_def)

lemma try_recipe_first_failure:
  assumes "\<not> is_trivial base c (get_required_recipe_direction c t)"
    and "filter (\<lambda>x. x \<notin> set base) (get_inputs c (get_required_recipe_direction c t)) =
           ps @ y # qs"
    and "\<forall>z\<in>set ps. rec z (Some c) = Some (True, sub z)"
    and "rec y (Some c) = Some (False, q)"
  shows "try_recipe rec base t c = Some (False, concat (map sub ps))"
  using assms(1)
    reagent_loop_first_failure [of base "get_inputs c (get_required_recipe_direction c t)"
      ps y qs rec c sub q "[]", OF assms(2,3,4)]
  by (simp add: try_recipe_def Let_def)

section \<open>The catalog of the program, evaluated\<close>

lemma valid_SI: "get_valid_recipes recipes ''SI'' = [recipes ! 0, recipes ! 11, recipes ! 13]"
  by code_simp

lemma valid_WV:
  "get_valid_recipes recipes ''WV'' = [recipes ! 0, recipes ! 3, recipes ! 5, recipes ! 19]"
  by code_simp

lemma valid_DF: "get_valid_recipes recipes ''DF'' = []"
  by code_simp

lemma DF_base: "''DF'' \<in> set base_ingredients"
  by code_simp

lemma try_SI_0:
  "try_recipe (get_recipe_path 2 base_ingredients recipes) base_ingredients ''SI'' (recipes ! 0) =
     Some (False, [])"
  by code_simp

lemma try_WV_0:
  "try_recipe (get_recipe_path 2 base_ingredients recipes) base_ingredients ''WV'' (recipes ! 0) =
     Some (False, [])"
  by code_simp

lemma try_WV_3:
  "try_recipe (get_recipe_path 2 base_ingredients recipes) base_ingredients ''WV'' (recipes ! 3) =
     Some (False, [])"
  by code_simp

lemma try_WV_5:
  "try_recipe (get_recipe_path 2 base_ingredients recipes) base_ingredients ''WV'' (recipes ! 5) =
     Some (False, [])"
  by code_simp

lemma shape_SI:
  "recipes ! 0 = Recipe_init 0 [''SI'', ''WV''] ''AC'' False \<and>
   recipes ! 11 = Recipe_init 11 [''FP'', ''IW''] ''SI'' False \<and>
   get_required_recipe_direction (recipes ! 0) ''SI'' = SPLIT \<and>
   \<not> is_trivial base_ingredients (recipes ! 0) SPLIT \<and>
   get_required_recipe_direction (recipes ! 11) ''SI'' = COMBINE \<and>
   is_trivial base_ingredients (recipes ! 11) COMBINE"
  by code_simp

lemma shape_WV:
  "recipes ! 19 = Recipe_init 19 [''DW''] ''WV'' False \<and>
   get_required_recipe_direction (recipes ! 0) ''WV'' = SPLIT \<and>
   get_required_recipe_direction (recipes ! 3) ''WV'' = SPLIT \<and>
   get_required_recipe_direction (recipes ! 5) ''WV'' = SPLIT \<and>
   \<not> is_trivial base_ingredients (recipes ! 0) SPLIT \<and>
   \<not> is_trivial base_ingredients (recipes ! 3) SPLIT \<and>
   \<not> is_trivial base_ingredients (recipes ! 5) SPLIT \<and>
   get_required_recipe_direction (recipes ! 19) ''WV'' = COMBINE \<and>
   is_trivial base_ingredients (recipes ! 19) COMBINE"
  by code_simp

lemma SI_3:
  "get_recipe_path 3 base_ingredients recipes ''SI'' None = Some (True, [''FP + IW = SI''])"
  by code_simp

lemma WV_3:
  "get_recipe_path 3 base_ingredients recipes ''WV'' None = Some (True, [''DW = WV''])"
  by code_simp

section \<open>The claims\<close>

subsection \<open>Applicability\<close>

text \<open>
  C1. \<open>can_make\<close> holds exactly when the target is the result and not a reagent, or the
  target is a reagent other than the result and the recipe may be split. A recipe whose
  result is one of its own reagents can therefore never make that element.
\<close>

theorem can_make_iff:
  "(can_make r target \<longleftrightarrow>
      (target = result r \<and> target \<notin> set (reagents r)) \<or>
      (target \<noteq> result r \<and> target \<in> set (reagents r) \<and> \<not> no_split r)) \<and>
   (result r \<in> set (reagents r) \<longrightarrow> \<not> can_make r (result r))"
  by (auto simp: can_make_def)

text \<open>
  The ninth recipe of the catalog, \<^verbatim>\<open>Recipe(["LT", "PF"], "PF")\<close>, cannot make \<open>PF\<close>; the
  tenth can, by a split; the twenty-first, marked \<^verbatim>\<open>no_split\<close>, cannot be split into
  \<open>FE\<close>.
\<close>

theorem can_make_iff_witness:
  "result (recipes ! 8) \<in> set (reagents (recipes ! 8)) \<and>
   \<not> can_make (recipes ! 8) ''PF'' \<and>
   can_make (recipes ! 9) ''PF'' \<and> can_make (recipes ! 9) ''EA'' \<and>
   \<not> can_make (recipes ! 20) ''FE''"
  using can_make_iff [of "recipes ! 8" "''PF''"] can_make_iff [of "recipes ! 9" "''PF''"]
    can_make_iff [of "recipes ! 9" "''EA''"] can_make_iff [of "recipes ! 20" "''FE''"]
  by (simp add: recipes_def Recipe_init_def)

subsection \<open>The first candidate that returns decides\<close>



subsection \<open>The scenarios of the catalog\<close>

text \<open>
  C3. With the catalog and the base ingredients of the program, \<open>SI\<close> resolves to the
  single step \<open>FP + IW = SI\<close>, for every fuel from 3 on. The candidates are the recipes 0,
  11 and 13 of the catalog; recipe 0, \<^verbatim>\<open>Recipe(["SI", "WV"], "AC")\<close>, is tried first, as a
  split that is not trivial, and falls through; recipe 11 is trivial.
\<close>

theorem resolve_SI:
  "get_recipe_path (3 + n) base_ingredients recipes ''SI'' None =
     Some (True, [''FP + IW = SI'']) \<and>
   get_valid_recipes recipes ''SI'' = [recipes ! 0, recipes ! 11, recipes ! 13] \<and>
   recipes ! 0 = Recipe_init 0 [''SI'', ''WV''] ''AC'' False \<and>
   get_required_recipe_direction (recipes ! 0) ''SI'' = SPLIT \<and>
   \<not> is_trivial base_ingredients (recipes ! 0) SPLIT \<and>
   try_recipe (get_recipe_path (2 + n) base_ingredients recipes) base_ingredients ''SI''
     (recipes ! 0) = Some (False, []) \<and>
   recipes ! 11 = Recipe_init 11 [''FP'', ''IW''] ''SI'' False \<and>
   get_required_recipe_direction (recipes ! 11) ''SI'' = COMBINE \<and>
   is_trivial base_ingredients (recipes ! 11) COMBINE"
  using get_recipe_path_more_fuel [OF SI_3, of n] try_recipe_more_fuel [OF try_SI_0, of n]
    valid_SI shape_SI
  by blast

text \<open>
  C4. \<open>WV\<close> resolves to the single step \<open>DW = WV\<close>, for every fuel from 3 on. The
  candidates are the recipes 0, 3, 5 and 19; the first three are splits that are not
  trivial, and each returns to the loop without a path; recipe 19,
  \<^verbatim>\<open>Recipe(["DW"], "WV")\<close>, is a trivial combination.
\<close>

theorem resolve_WV:
  "get_recipe_path (3 + n) base_ingredients recipes ''WV'' None = Some (True, [''DW = WV'']) \<and>
   get_valid_recipes recipes ''WV'' = [recipes ! 0, recipes ! 3, recipes ! 5, recipes ! 19] \<and>
   get_required_recipe_direction (recipes ! 0) ''WV'' = SPLIT \<and>
   get_required_recipe_direction (recipes ! 3) ''WV'' = SPLIT \<and>
   get_required_recipe_direction (recipes ! 5) ''WV'' = SPLIT \<and>
   \<not> is_trivial base_ingredients (recipes ! 0) SPLIT \<and>
   \<not> is_trivial base_ingredients (recipes ! 3) SPLIT \<and>
   \<not> is_trivial base_ingredients (recipes ! 5) SPLIT \<and>
   try_recipe (get_recipe_path (2 + n) base_ingredients recipes) base_ingredients ''WV''
     (recipes ! 0) = Some (False, []) \<and>
   try_recipe (get_recipe_path (2 + n) base_ingredients recipes) base_ingredients ''WV''
     (recipes ! 3) = Some (False, []) \<and>
   try_recipe (get_recipe_path (2 + n) base_ingredients recipes) base_ingredients ''WV''
     (recipes ! 5) = Some (False, []) \<and>
   recipes ! 19 = Recipe_init 19 [''DW''] ''WV'' False \<and>
   get_required_recipe_direction (recipes ! 19) ''WV'' = COMBINE \<and>
   is_trivial base_ingredients (recipes ! 19) COMBINE"
  using get_recipe_path_more_fuel [OF WV_3, of n] try_recipe_more_fuel [OF try_WV_0, of n]
    try_recipe_more_fuel [OF try_WV_3, of n] try_recipe_more_fuel [OF try_WV_5, of n]
    valid_WV shape_WV
  by blast

text \<open>
  C5. When no recipe of the catalog can make the target, the resolver returns
  \<^verbatim>\<open>(False, [])\<close> at once (any fuel but 0 will do), whether the target is a base
  ingredient or not. \<open>DF\<close> is a base ingredient that no recipe of the program mentions:
  it does not resolve, and \<^verbatim>\<open>print_recipe_path\<close> prints \<open>Failed to solve for DF\<close>.
\<close>

theorem no_candidate_not_found:
  "(get_valid_recipes cat t = [] \<longrightarrow>
      get_recipe_path (Suc n) base cat t prev = Some (False, [])) \<and>
   ''DF'' \<in> set base_ingredients \<and>
   get_valid_recipes recipes ''DF'' = [] \<and>
   get_recipe_path (Suc n) base_ingredients recipes ''DF'' None = Some (False, []) \<and>
   print_recipe_path (Suc n) base_ingredients recipes ''DF'' = Some [''Failed to solve for DF'']"
  using valid_DF DF_base by (simp add: print_recipe_path_def)

theorem no_candidate_not_found_witness:
  "get_valid_recipes recipes ''DF'' = [] \<and>
   get_recipe_path (Suc 0) base_ingredients recipes ''DF'' None = Some (False, []) \<and>
   get_valid_recipes recipes ''ZZ'' = [] \<and>
   get_recipe_path (Suc 0) base_ingredients recipes ''ZZ'' (Some (recipes ! 4)) =
     Some (False, [])"
proof -
  have z: "get_valid_recipes recipes ''ZZ'' = []" by code_simp
  from no_candidate_not_found [of recipes "''ZZ''" 0 base_ingredients "Some (recipes ! 4)"] z
    no_candidate_not_found [of recipes "''DF''" 0 base_ingredients None]
  show ?thesis by simp
qed

subsection \<open>The inputs of a candidate\<close>

text \<open>
  C6. Let \<open>c\<close> be a candidate that the loop reaches (every candidate before it fell
  through) and that is not trivial in its direction. Its inputs are taken in the order of
  the list, and those in the base set are skipped. If every other input \<open>y\<close> resolves, to
  the path \<open>sub y\<close>, the resolver returns these paths concatenated in the order of the
  inputs, with the step of \<open>c\<close> last. If \<open>y\<close> is the first input that does not resolve,
  the candidate is given up there, whatever the inputs \<open>qs\<close> after \<open>y\<close> would do, and the
  resolver goes on with the candidates after \<open>c\<close>.
\<close>

theorem inputs_in_order:
  assumes "exclude_previous prev (get_valid_recipes cat t) = pre @ c # post"
    and "\<forall>r\<in>set pre. \<exists>acc. try_recipe (get_recipe_path n base cat) base t r = Some (False, acc)"
    and "\<not> is_trivial base c (get_required_recipe_direction c t)"
  shows
    "((\<forall>y\<in>set (filter (\<lambda>x. x \<notin> set base) (get_inputs c (get_required_recipe_direction c t))).
         get_recipe_path n base cat y (Some c) = Some (True, sub y)) \<longrightarrow>
      get_recipe_path (Suc n) base cat t prev =
        Some (True,
          concat (map sub (filter (\<lambda>x. x \<notin> set base)
            (get_inputs c (get_required_recipe_direction c t))))
          @ [get_recipe_string c (get_required_recipe_direction c t)])) \<and>
     (filter (\<lambda>x. x \<notin> set base) (get_inputs c (get_required_recipe_direction c t)) =
          ps @ y # qs \<and>
        (\<forall>z\<in>set ps. get_recipe_path n base cat z (Some c) = Some (True, sub z)) \<and>
        get_recipe_path n base cat y (Some c) = Some (False, q) \<longrightarrow>
        try_recipe (get_recipe_path n base cat) base t c = Some (False, concat (map sub ps)) \<and>
        get_recipe_path (Suc n) base cat t prev =
          recipe_loop (get_recipe_path n base cat) base t post)"
proof (intro conjI impI)
  assume a: "\<forall>y\<in>set (filter (\<lambda>x. x \<notin> set base)
        (get_inputs c (get_required_recipe_direction c t))).
      get_recipe_path n base cat y (Some c) = Some (True, sub y)"
  show "get_recipe_path (Suc n) base cat t prev =
        Some (True,
          concat (map sub (filter (\<lambda>x. x \<notin> set base)
            (get_inputs c (get_required_recipe_direction c t))))
          @ [get_recipe_string c (get_required_recipe_direction c t)])"
    using get_recipe_path_first_success [OF assms(1,2)]
      try_recipe_all_solved [of base c t "get_recipe_path n base cat" sub, OF assms(3) a]
    by simp
next
  assume b: "filter (\<lambda>x. x \<notin> set base) (get_inputs c (get_required_recipe_direction c t)) =
        ps @ y # qs \<and>
      (\<forall>z\<in>set ps. get_recipe_path n base cat z (Some c) = Some (True, sub z)) \<and>
      get_recipe_path n base cat y (Some c) = Some (False, q)"
  then have f: "try_recipe (get_recipe_path n base cat) base t c =
      Some (False, concat (map sub ps))"
    using try_recipe_first_failure [of base c t ps y qs "get_recipe_path n base cat" sub q]
      assms(3)
    by blast
  then show "try_recipe (get_recipe_path n base cat) base t c =
      Some (False, concat (map sub ps))" .
  have "\<forall>r\<in>set (pre @ [c]). \<exists>acc.
      try_recipe (get_recipe_path n base cat) base t r = Some (False, acc)"
    using assms(2) f by auto
  then show "get_recipe_path (Suc n) base cat t prev =
      recipe_loop (get_recipe_path n base cat) base t post"
    using get_recipe_path_skip_failed [of prev cat t "pre @ [c]" post n base] assms(1) by simp
qed

text \<open>
  In the catalog of the program, \<open>AC\<close> is made from \<open>SI\<close> and \<open>WV\<close>, resolved in this
  order, and \<open>US\<close> from \<open>DW\<close>, which is skipped, and \<open>WV\<close>. In \<open>cat_abandon\<close> the first
  input \<open>Y\<close> of the only candidate fails; with fuel 1 the second input \<open>X\<close> would not
  return, and the candidate is given up all the same. In \<open>cat_partial\<close> the first input
  resolves and the second fails.
\<close>

theorem inputs_in_order_witness:
  "exclude_previous None (get_valid_recipes recipes ''AC'') =
     [] @ recipes ! 0 # [recipes ! 1, recipes ! 2] \<and>
   get_inputs (recipes ! 0) (get_required_recipe_direction (recipes ! 0) ''AC'') =
     [''SI'', ''WV''] \<and>
   get_recipe_path 3 base_ingredients recipes ''SI'' (Some (recipes ! 0)) =
     Some (True, [''FP + IW = SI'']) \<and>
   get_recipe_path 3 base_ingredients recipes ''WV'' (Some (recipes ! 0)) =
     Some (True, [''DW = WV'']) \<and>
   get_recipe_path (Suc 3) base_ingredients recipes ''AC'' None =
     Some (True, [''FP + IW = SI'', ''DW = WV'', ''SI + WV = AC'']) \<and>
   exclude_previous None (get_valid_recipes recipes ''US'') = [] @ recipes ! 5 # [recipes ! 6] \<and>
   get_inputs (recipes ! 5) (get_required_recipe_direction (recipes ! 5) ''US'') =
     [''DW'', ''WV''] \<and>
   get_recipe_path (Suc 3) base_ingredients recipes ''US'' None =
     Some (True, [''DW = WV'', ''DW + WV = US'']) \<and>
   exclude_previous None (get_valid_recipes cat_abandon ''T'') = [] @ cat_abandon ! 0 # [] \<and>
   get_inputs (cat_abandon ! 0) (get_required_recipe_direction (cat_abandon ! 0) ''T'') =
     [''Y'', ''X''] \<and>
   get_recipe_path 1 base_ingredients cat_abandon ''Y'' (Some (cat_abandon ! 0)) =
     Some (False, []) \<and>
   get_recipe_path 1 base_ingredients cat_abandon ''X'' (Some (cat_abandon ! 0)) = None \<and>
   try_recipe (get_recipe_path 1 base_ingredients cat_abandon) base_ingredients ''T''
     (cat_abandon ! 0) = Some (False, []) \<and>
   get_recipe_path (Suc 1) base_ingredients cat_abandon ''T'' None = Some (False, []) \<and>
   get_inputs (cat_partial ! 0) (get_required_recipe_direction (cat_partial ! 0) ''T'') =
     [''X'', ''Y''] \<and>
   get_recipe_path 1 base_ingredients cat_partial ''X'' (Some (cat_partial ! 0)) =
     Some (True, [''DW = X'']) \<and>
   get_recipe_path 1 base_ingredients cat_partial ''Y'' (Some (cat_partial ! 0)) =
     Some (False, []) \<and>
   try_recipe (get_recipe_path 1 base_ingredients cat_partial) base_ingredients ''T''
     (cat_partial ! 0) = Some (False, [''DW = X'']) \<and>
   get_recipe_path (Suc 1) base_ingredients cat_partial ''T'' None = Some (False, [])"
proof -
  let ?sub = "\<lambda>y. if y = ''SI'' then [''FP + IW = SI''] else [''DW = WV'']"
  have c1: "exclude_previous None (get_valid_recipes recipes ''AC'') =
     [] @ recipes ! 0 # [recipes ! 1, recipes ! 2]"
    by code_simp
  have i1: "get_inputs (recipes ! 0) (get_required_recipe_direction (recipes ! 0) ''AC'') =
      [''SI'', ''WV'']"
    by code_simp
  have n1: "\<not> is_trivial base_ingredients (recipes ! 0)
      (get_required_recipe_direction (recipes ! 0) ''AC'')"
    by code_simp
  have si: "get_recipe_path 3 base_ingredients recipes ''SI'' (Some (recipes ! 0)) =
     Some (True, [''FP + IW = SI''])"
    by code_simp
  have wv: "get_recipe_path 3 base_ingredients recipes ''WV'' (Some (recipes ! 0)) =
     Some (True, [''DW = WV''])"
    by code_simp
  have nb: "filter (\<lambda>x. x \<notin> set base_ingredients) [''SI'', ''WV''] = [''SI'', ''WV'']"
    by code_simp
  have s1: "get_recipe_string (recipes ! 0) (get_required_recipe_direction (recipes ! 0) ''AC'') =
      ''SI + WV = AC''"
    by code_simp
  have e1: "\<forall>r\<in>set []. \<exists>acc.
      try_recipe (get_recipe_path 3 base_ingredients recipes) base_ingredients ''AC'' r =
        Some (False, acc)"
    by simp
  have ac: "get_recipe_path (Suc 3) base_ingredients recipes ''AC'' None =
     Some (True, [''FP + IW = SI'', ''DW = WV'', ''SI + WV = AC''])"
    using inputs_in_order [OF c1 e1 n1, of ?sub] i1 nb si wv s1 by simp
  have c2: "exclude_previous None (get_valid_recipes recipes ''US'') =
      [] @ recipes ! 5 # [recipes ! 6]"
    by code_simp
  have i2: "get_inputs (recipes ! 5) (get_required_recipe_direction (recipes ! 5) ''US'') =
      [''DW'', ''WV'']"
    by code_simp
  have n2: "\<not> is_trivial base_ingredients (recipes ! 5)
      (get_required_recipe_direction (recipes ! 5) ''US'')"
    by code_simp
  have wv2: "get_recipe_path 3 base_ingredients recipes ''WV'' (Some (recipes ! 5)) =
     Some (True, [''DW = WV''])"
    by code_simp
  have nb2: "filter (\<lambda>x. x \<notin> set base_ingredients) [''DW'', ''WV''] = [''WV'']"
    by code_simp
  have s2: "get_recipe_string (recipes ! 5) (get_required_recipe_direction (recipes ! 5) ''US'') =
      ''DW + WV = US''"
    by code_simp
  have e2: "\<forall>r\<in>set []. \<exists>acc.
      try_recipe (get_recipe_path 3 base_ingredients recipes) base_ingredients ''US'' r =
        Some (False, acc)"
    by simp
  have us: "get_recipe_path (Suc 3) base_ingredients recipes ''US'' None =
     Some (True, [''DW = WV'', ''DW + WV = US''])"
    using inputs_in_order [OF c2 e2 n2, of "\<lambda>y. [''DW = WV'']"] i2 nb2 wv2 s2 by simp
  have c3: "exclude_previous None (get_valid_recipes cat_abandon ''T'') =
      [] @ cat_abandon ! 0 # []"
    by code_simp
  have i3: "get_inputs (cat_abandon ! 0) (get_required_recipe_direction (cat_abandon ! 0) ''T'') =
     [''Y'', ''X'']"
    by code_simp
  have n3: "\<not> is_trivial base_ingredients (cat_abandon ! 0)
      (get_required_recipe_direction (cat_abandon ! 0) ''T'')"
    by code_simp
  have y3: "get_recipe_path 1 base_ingredients cat_abandon ''Y'' (Some (cat_abandon ! 0)) =
      Some (False, [])"
    by code_simp
  have x3: "get_recipe_path 1 base_ingredients cat_abandon ''X'' (Some (cat_abandon ! 0)) = None"
    by code_simp
  have nb3: "filter (\<lambda>x. x \<notin> set base_ingredients) [''Y'', ''X''] = [] @ ''Y'' # [''X'']"
    by code_simp
  have e3: "\<forall>r\<in>set []. \<exists>acc.
      try_recipe (get_recipe_path 1 base_ingredients cat_abandon) base_ingredients ''T'' r =
        Some (False, acc)"
    by simp
  have ab: "try_recipe (get_recipe_path 1 base_ingredients cat_abandon) base_ingredients ''T''
       (cat_abandon ! 0) = Some (False, []) \<and>
     get_recipe_path (Suc 1) base_ingredients cat_abandon ''T'' None = Some (False, [])"
    using inputs_in_order [where sub = "\<lambda>y. []" and ps = "[]" and y = "''Y''" and qs = "[''X'']"
        and q = "[]", OF c3 e3 n3] i3 nb3 y3
    by (simp del: get_recipe_path.simps)
  have c4: "exclude_previous None (get_valid_recipes cat_partial ''T'') =
      [] @ cat_partial ! 0 # []"
    by code_simp
  have i4: "get_inputs (cat_partial ! 0) (get_required_recipe_direction (cat_partial ! 0) ''T'') =
     [''X'', ''Y'']"
    by code_simp
  have n4: "\<not> is_trivial base_ingredients (cat_partial ! 0)
      (get_required_recipe_direction (cat_partial ! 0) ''T'')"
    by code_simp
  have x4: "get_recipe_path 1 base_ingredients cat_partial ''X'' (Some (cat_partial ! 0)) =
      Some (True, [''DW = X''])"
    by code_simp
  have y4: "get_recipe_path 1 base_ingredients cat_partial ''Y'' (Some (cat_partial ! 0)) =
      Some (False, [])"
    by code_simp
  have nb4: "filter (\<lambda>x. x \<notin> set base_ingredients) [''X'', ''Y''] = [''X''] @ ''Y'' # []"
    by code_simp
  have e4: "\<forall>r\<in>set []. \<exists>acc.
      try_recipe (get_recipe_path 1 base_ingredients cat_partial) base_ingredients ''T'' r =
        Some (False, acc)"
    by simp
  have pa: "try_recipe (get_recipe_path 1 base_ingredients cat_partial) base_ingredients ''T''
       (cat_partial ! 0) = Some (False, [''DW = X'']) \<and>
     get_recipe_path (Suc 1) base_ingredients cat_partial ''T'' None = Some (False, [])"
    using inputs_in_order [where sub = "\<lambda>y. [''DW = X'']" and ps = "[''X'']" and y = "''Y''"
        and qs = "[]" and q = "[]", OF c4 e4 n4] i4 nb4 x4 y4
    by (simp del: get_recipe_path.simps)
  from c1 i1 si wv ac c2 i2 us c3 i3 y3 x3 ab i4 x4 y4 pa show ?thesis by blast
qed

subsection \<open>The excluded recipe\<close>

text \<open>
  C7. A call with candidates iterates over the recipes that can make the target, in the
  order of the catalog, less the excluded recipe. Nothing is excluded for \<^verbatim>\<open>None\<close>.
  Otherwise every candidate that is not the very object \<open>p\<close> stays, at most one entry
  goes, and when the candidates are distinct objects exactly the entry that is \<open>p\<close> goes.
  The exclusion is made anew in each call, for the recipe that made the call, so an
  object is excluded only one level below the call that tries it.
\<close>

theorem exclusion_by_identity:
  "get_recipe_path (Suc n) base cat t prev =
     (if get_valid_recipes cat t = [] then Some (False, [])
      else recipe_loop (get_recipe_path n base cat) base t
             (exclude_previous prev (get_valid_recipes cat t))) \<and>
   get_valid_recipes cat t = filter (\<lambda>r. can_make r t) cat \<and>
   subseq (exclude_previous prev (get_valid_recipes cat t)) cat \<and>
   exclude_previous None rs = rs \<and>
   (\<forall>r\<in>set rs. \<not> same_object r p \<longrightarrow> r \<in> set (exclude_previous (Some p) rs)) \<and>
   length rs \<le> Suc (length (exclude_previous prev rs)) \<and>
   (distinct (map ident rs) \<longrightarrow>
      exclude_previous (Some p) rs = filter (\<lambda>r. \<not> same_object r p) rs)"
proof (intro conjI)
  show "get_recipe_path (Suc n) base cat t prev =
     (if get_valid_recipes cat t = [] then Some (False, [])
      else recipe_loop (get_recipe_path n base cat) base t
             (exclude_previous prev (get_valid_recipes cat t)))"
    by (rule get_recipe_path_unfold)
  show "get_valid_recipes cat t = filter (\<lambda>r. can_make r t) cat"
    by (rule get_valid_recipes_filter)
  show "subseq (exclude_previous prev (get_valid_recipes cat t)) cat"
    by (rule candidates_subseq)
  show "exclude_previous None rs = rs"
    by (rule exclude_previous_None)
  show "\<forall>r\<in>set rs. \<not> same_object r p \<longrightarrow> r \<in> set (exclude_previous (Some p) rs)"
    by (simp add: exclude_previous_Some list_remove_keeps)
  show "length rs \<le> Suc (length (exclude_previous prev rs))"
    by (cases prev)
      (simp_all add: exclude_previous_None exclude_previous_Some list_remove_length)
  show "distinct (map ident rs) \<longrightarrow>
      exclude_previous (Some p) rs = filter (\<lambda>r. \<not> same_object r p) rs"
    by (simp add: exclude_previous_Some list_remove_distinct)
qed

text \<open>
  In \<open>cat_grandparent\<close> the resolver tries recipe 0 for \<open>DW\<close>, then recipe 1 for its input
  \<open>X\<close>, then resolves \<open>Y\<close> with recipe 1 excluded: recipe 0 is a candidate there and is
  used, as the split \<open>DW -> X + Y\<close>. A recipe with the attributes of recipe 1 that is
  another object excludes nothing.
\<close>

theorem exclusion_by_identity_witness:
  "get_valid_recipes cat_grandparent ''Y'' = [cat_grandparent ! 0, cat_grandparent ! 1] \<and>
   \<not> same_object (cat_grandparent ! 0) (cat_grandparent ! 1) \<and>
   cat_grandparent ! 0 \<in> set (exclude_previous (Some (cat_grandparent ! 1))
     (get_valid_recipes cat_grandparent ''Y'')) \<and>
   exclude_previous (Some (cat_grandparent ! 1)) (get_valid_recipes cat_grandparent ''Y'') =
     [cat_grandparent ! 0] \<and>
   exclude_previous (Some (Recipe_init 7 [''Y''] ''X'' False))
     (get_valid_recipes cat_grandparent ''Y'') = [cat_grandparent ! 0, cat_grandparent ! 1] \<and>
   cat_grandparent ! 1 = Recipe_init 1 [''Y''] ''X'' False \<and>
   get_recipe_path 3 base_ingredients cat_grandparent ''DW'' None =
     Some (True, [''DW -> X + Y'', ''Y = X'', ''DW -> X + Y'', ''X -> Y'', ''X + Y = DW''])"
proof -
  let ?rs = "get_valid_recipes cat_grandparent ''Y''"
  have v: "?rs = [cat_grandparent ! 0, cat_grandparent ! 1]"
    by code_simp
  have d: "\<not> same_object (cat_grandparent ! 0) (cat_grandparent ! 1)"
    by code_simp
  have m: "cat_grandparent ! 0 \<in> set ?rs"
    by (simp add: v)
  have di: "distinct (map ident ?rs)"
    by code_simp
  note th = exclusion_by_identity [of 2 base_ingredients cat_grandparent "''DW''" None ?rs
      "cat_grandparent ! 1"]
  from th m d
  have k: "cat_grandparent ! 0 \<in> set (exclude_previous (Some (cat_grandparent ! 1)) ?rs)"
    by blast
  from th di have "exclude_previous (Some (cat_grandparent ! 1)) ?rs =
      filter (\<lambda>r. \<not> same_object r (cat_grandparent ! 1)) ?rs"
    by blast
  also have "\<dots> = [cat_grandparent ! 0]"
    by code_simp
  finally have e: "exclude_previous (Some (cat_grandparent ! 1)) ?rs = [cat_grandparent ! 0]" .
  have l: "exclude_previous (Some (Recipe_init 7 [''Y''] ''X'' False)) ?rs =
      [cat_grandparent ! 0, cat_grandparent ! 1]"
    by code_simp
  have b: "cat_grandparent ! 1 = Recipe_init 1 [''Y''] ''X'' False"
    by code_simp
  have g: "get_recipe_path 3 base_ingredients cat_grandparent ''DW'' None =
     Some (True, [''DW -> X + Y'', ''Y = X'', ''DW -> X + Y'', ''X -> Y'', ''X + Y = DW''])"
    by code_simp
  from v d k e l b g show ?thesis by blast
qed

subsection \<open>The two outcomes\<close>

text \<open>
  C8. A call that returns has one of two outcomes: \<^verbatim>\<open>(False, [])\<close>, or \<^verbatim>\<open>True\<close> with a
  path that is not empty.
\<close>

theorem two_outcomes:
  "get_recipe_path n base cat t prev = Some out \<Longrightarrow>
   out = (False, []) \<or> (\<exists>p. out = (True, p) \<and> p \<noteq> [])"
  using get_recipe_path_shape [of n base cat t prev "fst out" "snd out"] by (cases out) auto

theorem two_outcomes_witness:
  "get_recipe_path 3 base_ingredients recipes ''SI'' None = Some (True, [''FP + IW = SI'']) \<and>
   ((True, [''FP + IW = SI'']) = (False, []) \<or>
    (\<exists>p. (True, [''FP + IW = SI'']) = (True, p) \<and> p \<noteq> []))"
  using two_outcomes [OF SI_3] SI_3 by simp

subsection \<open>The method that adds a string to a list\<close>

text \<open>
  C9. \<open>get_all_elements\<close> adds the string \<open>result\<close> to the list \<open>reagents\<close>, so for every
  recipe it raises \<^verbatim>\<open>TypeError\<close> and returns no list.
\<close>

theorem get_all_elements_raises: "get_all_elements r = Inl TypeError"
  by (simp add: get_all_elements_def)

subsection \<open>The path of a failure\<close>

text \<open>
  C10. A call that returns \<^verbatim>\<open>False\<close> returns it with the empty list. Every \<^verbatim>\<open>return\<close> of
  the function builds a list, so the path is a list in the model and \<^verbatim>\<open>None\<close> is not
  among its values. The accumulator of a candidate that falls through is dropped: the
  loop goes on as if the candidate had not been there.
\<close>

theorem failure_returns_empty_path:
  "(get_recipe_path n base cat t prev = Some (False, p) \<longrightarrow> p = []) \<and>
   (try_recipe rec base t c = Some (False, acc) \<longrightarrow>
      recipe_loop rec base t (c # cs) = recipe_loop rec base t cs)"
  using get_recipe_path_shape [of n base cat t prev False p] by simp

text \<open>
  In \<open>cat_partial\<close> the only candidate for \<open>T\<close> has gathered the step \<open>DW = X\<close> when its
  second input fails; the call returns \<^verbatim>\<open>(False, [])\<close>.
\<close>

theorem failure_returns_empty_path_witness:
  "try_recipe (get_recipe_path 1 base_ingredients cat_partial) base_ingredients ''T''
     (cat_partial ! 0) = Some (False, [''DW = X'']) \<and>
   get_valid_recipes cat_partial ''T'' = [cat_partial ! 0] \<and>
   recipe_loop (get_recipe_path 1 base_ingredients cat_partial) base_ingredients ''T''
     [cat_partial ! 0] = Some (False, []) \<and>
   get_recipe_path 2 base_ingredients cat_partial ''T'' None = Some (False, [])"
proof -
  have a: "try_recipe (get_recipe_path 1 base_ingredients cat_partial) base_ingredients ''T''
     (cat_partial ! 0) = Some (False, [''DW = X''])"
    by code_simp
  have v: "get_valid_recipes cat_partial ''T'' = [cat_partial ! 0]"
    by code_simp
  have g: "get_recipe_path 2 base_ingredients cat_partial ''T'' None = Some (False, [])"
    by code_simp
  from failure_returns_empty_path [of 2 base_ingredients cat_partial "''T''" None "[]"
      "get_recipe_path 1 base_ingredients cat_partial" "cat_partial ! 0" "[''DW = X'']" "[]"]
    a v g
  show ?thesis by simp
qed

end
